theory Spec2Isabelle
  imports Complex_Main "HOL-Library.Multiset" "HOL-Library.Monad_Syntax"
begin

section \<open>JavaScript values used by the countries table\<close>

text \<open>
  The program (src/js/index.js) holds a dataset of country objects, derives query results
  from it (the \<open>countries\<close> object) and writes them into the rows of an HTML table (the
  \<open>tableHelper\<close> object). The embedding keeps the objects in a store, so that copying an
  object and writing to a property of the copy are different from writing to the original.
\<close>

subsection \<open>Numbers\<close>

text \<open>
  A JavaScript Number is a finite value, one of the two infinities, or NaN. The program only
  compares numbers (\<open><=\<close>, \<open>>=\<close>) and tests them for truthiness; it does no arithmetic, so a
  finite number is represented by the real it denotes (\<open>+0\<close> and \<open>-0\<close> both by \<open>0\<close>).
\<close>

datatype jsnum = NaN | NegInf | Fin real | PosInf

text \<open>\<open>a <= b\<close>: false as soon as one side is NaN.\<close>

fun js_le :: "jsnum \<Rightarrow> jsnum \<Rightarrow> bool" where
  "js_le NaN b = False"
| "js_le a NaN = False"
| "js_le NegInf b = True"
| "js_le (Fin x) NegInf = False"
| "js_le (Fin x) (Fin y) = (x \<le> y)"
| "js_le (Fin x) PosInf = True"
| "js_le PosInf PosInf = True"
| "js_le PosInf b = False"

text \<open>\<open>a >= b\<close>: the same comparison with the operands exchanged.\<close>

definition js_ge :: "jsnum \<Rightarrow> jsnum \<Rightarrow> bool" where
  "js_ge a b = js_le b a"

text \<open>Truthiness of a number: \<open>0\<close> and NaN are falsy.\<close>

fun truthy_num :: "jsnum \<Rightarrow> bool" where
  "truthy_num NaN = False"
| "truthy_num (Fin x) = (x \<noteq> 0)"
| "truthy_num NegInf = True"
| "truthy_num PosInf = True"

text \<open>
  An optional Number parameter (\<open>@param {Number} maxPopulation - (Optional)\<close>): \<open>None\<close> is
  the omitted argument, that is \<open>undefined\<close>, which is falsy.
\<close>

fun truthy_arg :: "jsnum option \<Rightarrow> bool" where
  "truthy_arg None = False"
| "truthy_arg (Some n) = truthy_num n"

text \<open>In a comparison \<open>undefined\<close> is converted to NaN.\<close>

fun to_number :: "jsnum option \<Rightarrow> jsnum" where
  "to_number None = NaN"
| "to_number (Some n) = n"

text \<open>Truthiness of a string: only the empty string is falsy.\<close>

definition truthy_str :: "string \<Rightarrow> bool" where
  "truthy_str s = (s \<noteq> [])"

subsection \<open>Country objects\<close>

text \<open>
  The \<open>name\<close> property of a country object is, in the dataset, an object that maps a
  language label to the localized name; in a query result it is whatever
  \<open>name[language]\<close> gave: a string, \<open>undefined\<close>, or a value that every object inherits
  from \<open>Object.prototype\<close>. A name object is represented by its own properties: the map
  from the labels it holds to their localized strings. \<open>Inherited key\<close> stands for the
  function (for \<open>__proto__\<close>, the object) that \<open>Object.prototype\<close> holds under \<open>key\<close>.
\<close>

datatype name_val = Undefined | Str string | Names "string \<rightharpoonup> string" | Inherited string

text \<open>The property names of \<open>Object.prototype\<close> (ECMAScript, Annex B included).\<close>

definition object_prototype_keys :: "string list" where
  "object_prototype_keys =
     [''constructor'', ''hasOwnProperty'', ''isPrototypeOf'', ''propertyIsEnumerable'',
      ''toLocaleString'', ''toString'', ''valueOf'', ''__proto__'',
      ''__defineGetter__'', ''__defineSetter__'', ''__lookupGetter__'', ''__lookupSetter__'']"

text \<open>
  Modelled from the spec: the shape of a country object, which countries-data.js (not part
  of the sources) defines. Section 3 of the specification and the example in the comment
  above \<open>getByLanguage\<close> give the properties \<open>code\<close>, \<open>continent\<close>, \<open>areaInKm2\<close>,
  \<open>population\<close>, \<open>capital\<close> and \<open>name\<close>.
\<close>

record country =
  code :: string
  continent :: string
  areaInKm2 :: jsnum
  population :: jsnum
  capital :: string
  name :: name_val

text \<open>
  The property read \<open>v[key]\<close> on the value of a \<open>name\<close> property. On a name object it is
  the localized name stored under the label when the object has that label; otherwise the
  read goes on to the prototype and gives what \<open>Object.prototype\<close> holds under the key,
  and \<open>undefined\<close> when that has no such property either. On \<open>undefined\<close> the read raises
  TypeError (\<open>None\<close>). The name of a dataset object is a name object (section 3 of the
  specification); the characters, the length and the methods that a read on a primitive
  string would find, and the properties of a built-in function, are not represented, and
  the read gives \<open>undefined\<close> there.
\<close>

fun get_prop :: "name_val \<Rightarrow> string \<Rightarrow> name_val option" where
  "get_prop (Names m) key =
     Some (case m key of
             Some v \<Rightarrow> Str v
           | None \<Rightarrow> if key \<in> set object_prototype_keys then Inherited key else Undefined)"
| "get_prop Undefined key = None"
| "get_prop (Str s) key = Some Undefined"
| "get_prop (Inherited k) key = Some Undefined"

subsection \<open>The object store\<close>

text \<open>
  Objects live in a store addressed by references; \<open>next_ref\<close> is the first reference not
  yet handed out. \<open>all\<close> is the array \<open>countries.all\<close> (that is \<open>window.countriesData\<close>):
  the references of the dataset's objects, in dataset order.
\<close>

type_synonym ref = nat

record js_state =
  all :: "ref list"
  heap :: "ref \<Rightarrow> country"
  next_ref :: ref

text \<open>
  \<open>Object.assign({}, src)\<close>: a new object that receives the properties of \<open>src\<close>. The
  value of \<open>name\<close> is copied as it is (the copy is shallow).
\<close>

definition object_assign_new :: "country \<Rightarrow> js_state \<Rightarrow> ref \<times> js_state" where
  "object_assign_new src s =
     (next_ref s, s\<lparr>heap := (heap s)(next_ref s := src), next_ref := Suc (next_ref s)\<rparr>)"

text \<open>\<open>obj.name = v\<close> for the object at reference \<open>r\<close>.\<close>

definition set_name :: "ref \<Rightarrow> name_val \<Rightarrow> js_state \<Rightarrow> js_state" where
  "set_name r v s = s\<lparr>heap := (heap s)(r := (heap s r)\<lparr>name := v\<rparr>)\<rparr>"

section \<open>The query layer: \<open>countries\<close>\<close>

subsection \<open>\<open>getByLanguage\<close>\<close>

text \<open>
  The loop of \<open>getByLanguage\<close> at index \<open>i\<close>, with the array \<open>newArr\<close> built so far:
  \<^verbatim>\<open>
  for (var i = 0; i < this.all.length; i++) {
      newArr.push(Object.assign({}, this.all[i]));
      if (language) newArr[i].name = this.all[i].name[language];
  }
  return newArr;
  \<close>
  \<open>None\<close> is a TypeError: reading a property of \<open>undefined\<close>, or writing \<open>name\<close> on a slot
  of \<open>newArr\<close> that does not exist.
\<close>

function getByLanguage_loop ::
  "string \<Rightarrow> nat \<Rightarrow> ref list \<Rightarrow> js_state \<Rightarrow> (ref list \<times> js_state) option" where
  "getByLanguage_loop language i newArr s =
     (if i < length (all s) then
        (let (c, s1) = object_assign_new (heap s (all s ! i)) s;
             newArr1 = newArr @ [c]
         in if truthy_str language then
              (case get_prop (name (heap s1 (all s1 ! i))) language of
                 None \<Rightarrow> None
               | Some v \<Rightarrow>
                   (if i < length newArr1
                    then getByLanguage_loop language (Suc i) newArr1 (set_name (newArr1 ! i) v s1)
                    else None))
            else getByLanguage_loop language (Suc i) newArr1 s1)
      else Some (newArr, s))"
  by pat_completeness auto
termination
  by (relation "measure (\<lambda>(language, i, newArr, s). length (all s) - i)")
     (auto simp: object_assign_new_def set_name_def)

text \<open>
  \<open>getByLanguage: function(language = 'English')\<close>. The argument is a string or is left
  out (\<open>None\<close>), in which case the default applies.
\<close>

fun default_language :: "string option \<Rightarrow> string" where
  "default_language None = ''English''"
| "default_language (Some language) = language"

definition getByLanguage :: "string option \<Rightarrow> js_state \<Rightarrow> (ref list \<times> js_state) option" where
  "getByLanguage arg s = getByLanguage_loop (default_language arg) 0 [] s"

subsection \<open>\<open>getByPopulation\<close>\<close>

text \<open>
  The loop over the array \<open>country\<close> returned by \<open>getByLanguage('English')\<close>;
  \<open>unshift\<close> puts a reference in front of \<open>newArr\<close>.
  \<^verbatim>\<open>
  if (maxPopulation) {
      if (country[i].population <= maxPopulation && country[i].population >= minPopulation)
          newArr.unshift(country[i]);
  } else {
      if (country[i].population >= minPopulation) newArr.unshift(country[i]);
  }
  \<close>
\<close>

fun getByPopulation_loop ::
  "jsnum \<Rightarrow> jsnum option \<Rightarrow> ref list \<Rightarrow> ref list \<Rightarrow> js_state \<Rightarrow> ref list" where
  "getByPopulation_loop minPopulation maxPopulation [] newArr s = newArr"
| "getByPopulation_loop minPopulation maxPopulation (c # rest) newArr s =
     (if truthy_arg maxPopulation then
        (if js_le (population (heap s c)) (to_number maxPopulation) \<and>
            js_ge (population (heap s c)) minPopulation
         then getByPopulation_loop minPopulation maxPopulation rest (c # newArr) s
         else getByPopulation_loop minPopulation maxPopulation rest newArr s)
      else
        (if js_ge (population (heap s c)) minPopulation
         then getByPopulation_loop minPopulation maxPopulation rest (c # newArr) s
         else getByPopulation_loop minPopulation maxPopulation rest newArr s))"

definition getByPopulation ::
  "jsnum \<Rightarrow> jsnum option \<Rightarrow> js_state \<Rightarrow> (ref list \<times> js_state) option" where
  "getByPopulation minPopulation maxPopulation s =
     (case getByLanguage (Some ''English'') s of
        None \<Rightarrow> None
      | Some (country, s1) \<Rightarrow>
          Some (getByPopulation_loop minPopulation maxPopulation country [] s1, s1))"

subsection \<open>\<open>getByAreaAndContinent\<close>\<close>

text \<open>
  \<^verbatim>\<open>
  if (country[i].continent === continent) {
      if (country[i].areaInKm2 >= minArea) newArr.unshift(country[i]);
  }
  \<close>
  \<open>===\<close> on two strings is equality of their characters.
\<close>

fun getByAreaAndContinent_loop ::
  "string \<Rightarrow> jsnum \<Rightarrow> ref list \<Rightarrow> ref list \<Rightarrow> js_state \<Rightarrow> ref list" where
  "getByAreaAndContinent_loop cont minArea [] newArr s = newArr"
| "getByAreaAndContinent_loop cont minArea (c # rest) newArr s =
     (if continent (heap s c) = cont then
        (if js_ge (areaInKm2 (heap s c)) minArea
         then getByAreaAndContinent_loop cont minArea rest (c # newArr) s
         else getByAreaAndContinent_loop cont minArea rest newArr s)
      else getByAreaAndContinent_loop cont minArea rest newArr s)"

definition getByAreaAndContinent ::
  "string \<Rightarrow> jsnum \<Rightarrow> js_state \<Rightarrow> (ref list \<times> js_state) option" where
  "getByAreaAndContinent cont minArea s =
     (case getByLanguage (Some ''English'') s of
        None \<Rightarrow> None
      | Some (country, s1) \<Rightarrow> Some (getByAreaAndContinent_loop cont minArea country [] s1, s1))"

section \<open>The rendering layer: \<open>tableHelper\<close>\<close>

subsection \<open>The document\<close>

text \<open>
  A DOM node is an element (its tag, its \<open>src\<close> attribute when it has one, the references
  of its child nodes in order) or a text node. Cells are added to a row, and contents to a
  cell, after the node has been created and sometimes after it has been attached, so the
  nodes live in a store as well. \<open>table_rows\<close> is what
  \<open>document.querySelector('#table-rows')\<close> returns: the table body, or \<open>null\<close> (\<open>None\<close>)
  when the page has no such element.
\<close>

datatype node = Element string "string option" "ref list" | Text string

record dom_state =
  nodes :: "ref \<Rightarrow> node"
  next_node :: ref
  table_rows :: "ref option"

fun children_of_node :: "node \<Rightarrow> ref list" where
  "children_of_node (Element t a cs) = cs"
| "children_of_node (Text x) = []"

definition children_of :: "dom_state \<Rightarrow> ref \<Rightarrow> ref list" where
  "children_of d r = children_of_node (nodes d r)"

text \<open>\<open>document.createElement(t)\<close> and \<open>document.createTextNode(x)\<close>: a new, detached node.\<close>

definition createElement :: "string \<Rightarrow> dom_state \<Rightarrow> ref \<times> dom_state" where
  "createElement t d =
     (next_node d,
      d\<lparr>nodes := (nodes d)(next_node d := Element t None []), next_node := Suc (next_node d)\<rparr>)"

definition createTextNode :: "string \<Rightarrow> dom_state \<Rightarrow> ref \<times> dom_state" where
  "createTextNode x d =
     (next_node d,
      d\<lparr>nodes := (nodes d)(next_node d := Text x), next_node := Suc (next_node d)\<rparr>)"

text \<open>\<open>element.src = url\<close>.\<close>

fun with_src :: "string \<Rightarrow> node \<Rightarrow> node" where
  "with_src url (Element t a cs) = Element t (Some url) cs"
| "with_src url (Text x) = Text x"

definition set_src :: "ref \<Rightarrow> string \<Rightarrow> dom_state \<Rightarrow> dom_state" where
  "set_src r url d = d\<lparr>nodes := (nodes d)(r := with_src url (nodes d r))\<rparr>"

text \<open>
  \<open>parent.appendChild(child)\<close>: the child leaves the parent it had, if any, becomes the last
  child of \<open>parent\<close>, and is returned. A text node takes no children (HierarchyRequestError,
  \<open>None\<close>). The nodes this program appends are newly created ones, which have no
  descendants that could contain the parent.
\<close>

fun remove_child :: "ref \<Rightarrow> node \<Rightarrow> node" where
  "remove_child c (Element t a cs) = Element t a (removeAll c cs)"
| "remove_child c (Text x) = Text x"

definition appendChild :: "ref \<Rightarrow> ref \<Rightarrow> dom_state \<Rightarrow> (ref \<times> dom_state) option" where
  "appendChild parent child d =
     (case nodes d parent of
        Text x \<Rightarrow> None
      | Element t a cs \<Rightarrow>
          Some (child,
                d\<lparr>nodes := (\<lambda>r. remove_child child (nodes d r))
                              (parent := Element t a (removeAll child cs @ [child]))\<rparr>))"

subsection \<open>\<open>clearTable\<close>\<close>

text \<open>
  \<^verbatim>\<open>
  var tableRows = document.querySelector('#table-rows');
  tableRows.innerHTML = '';
  \<close>
  Setting \<open>innerHTML\<close> to the empty string removes every child of the element. When
  \<open>querySelector\<close> returns \<open>null\<close> the assignment raises TypeError (\<open>None\<close>).
\<close>

fun without_children :: "node \<Rightarrow> node" where
  "without_children (Element t a cs) = Element t a []"
| "without_children (Text x) = Text x"

definition clearTable :: "dom_state \<Rightarrow> dom_state option" where
  "clearTable d =
     (case table_rows d of
        None \<Rightarrow> None
      | Some tableRows \<Rightarrow>
          Some (d\<lparr>nodes := (nodes d)(tableRows := without_children (nodes d tableRows))\<rparr>))"

subsection \<open>\<open>countryCodeToFlagImg\<close>\<close>

text \<open>
  \<^verbatim>\<open>
  var image = document.createElement('img');
  image.src = `flags/${countryCode}.png`;
  return image;
  \<close>
\<close>

definition countryCodeToFlagImg :: "string \<Rightarrow> dom_state \<Rightarrow> ref \<times> dom_state" where
  "countryCodeToFlagImg countryCode d =
     (let (image, d1) = createElement ''img'' d;
          d2 = set_src image (''flags/'' @ countryCode @ ''.png'') d1
      in (image, d2))"

subsection \<open>\<open>countryToRow\<close>\<close>

text \<open>
  \<open>createTextNode\<close> turns its argument into a string. For the value of \<open>name\<close> that is
  the string itself, \<open>undefined\<close> for \<open>undefined\<close>, and \<open>[object Object]\<close> for a name
  object. The decimal form of a Number and the text of a built-in function are the
  language's own conversions, which the functions take as the parameters
  \<open>numberToString\<close> and \<open>builtinToString\<close> (the latter from the property name under
  which \<open>Object.prototype\<close> holds the value).
\<close>

fun name_to_string :: "(string \<Rightarrow> string) \<Rightarrow> name_val \<Rightarrow> string" where
  "name_to_string builtinToString Undefined = ''undefined''"
| "name_to_string builtinToString (Str x) = x"
| "name_to_string builtinToString (Names m) = ''[object Object]''"
| "name_to_string builtinToString (Inherited k) = builtinToString k"

text \<open>
  Each cell is attached to the row first and receives its content afterwards
  (\<open>tableRow.appendChild(cell).appendChild(content)\<close>), in the order flag, code, name,
  continent, area, population, capital.
\<close>

definition countryToRow ::
  "(jsnum \<Rightarrow> string) \<Rightarrow> (string \<Rightarrow> string) \<Rightarrow> country \<Rightarrow> dom_state
     \<Rightarrow> (ref \<times> dom_state) option" where
  "countryToRow numberToString builtinToString country d =
     do {
       let (tableRow, d) = createElement ''tr'' d;

       let (flagCell, d) = createElement ''td'' d;
       let (flagPNG, d) = countryCodeToFlagImg (code country) d;
       (x, d) \<leftarrow> appendChild tableRow flagCell d;
       (_, d) \<leftarrow> appendChild x flagPNG d;

       let (codeCell, d) = createElement ''td'' d;
       let (code, d) = createTextNode (code country) d;
       (x, d) \<leftarrow> appendChild tableRow codeCell d;
       (_, d) \<leftarrow> appendChild x code d;

       let (countryNameCell, d) = createElement ''td'' d;
       let (countryName, d) = createTextNode (name_to_string builtinToString (name country)) d;
       (x, d) \<leftarrow> appendChild tableRow countryNameCell d;
       (_, d) \<leftarrow> appendChild x countryName d;

       let (continentCell, d) = createElement ''td'' d;
       let (continent, d) = createTextNode (continent country) d;
       (x, d) \<leftarrow> appendChild tableRow continentCell d;
       (_, d) \<leftarrow> appendChild x continent d;

       let (areaCell, d) = createElement ''td'' d;
       let (area, d) = createTextNode (numberToString (areaInKm2 country)) d;
       (x, d) \<leftarrow> appendChild tableRow areaCell d;
       (_, d) \<leftarrow> appendChild x area d;

       let (populationCell, d) = createElement ''td'' d;
       let (population, d) = createTextNode (numberToString (population country)) d;
       (x, d) \<leftarrow> appendChild tableRow populationCell d;
       (_, d) \<leftarrow> appendChild x population d;

       let (capitalCell, d) = createElement ''td'' d;
       let (capital, d) = createTextNode (capital country) d;
       (x, d) \<leftarrow> appendChild tableRow capitalCell d;
       (_, d) \<leftarrow> appendChild x capital d;

       Some (tableRow, d)
     }"

subsection \<open>\<open>countriesToTable\<close>\<close>

text \<open>
  \<^verbatim>\<open>
  this.clearTable();
  for (var i = 0; i < countries.length; i++) {
      var rows = this.countryToRow(countries[i]);
      document.querySelector('#table-rows').appendChild(rows);
  }
  \<close>
  The argument is the sequence of country objects that the array refers to.
\<close>

fun countriesToTable_loop ::
  "(jsnum \<Rightarrow> string) \<Rightarrow> (string \<Rightarrow> string) \<Rightarrow> country list \<Rightarrow> dom_state
     \<Rightarrow> dom_state option" where
  "countriesToTable_loop numberToString builtinToString [] d = Some d"
| "countriesToTable_loop numberToString builtinToString (c # rest) d =
     do {
       (rows, d) \<leftarrow> countryToRow numberToString builtinToString c d;
       tableRows \<leftarrow> table_rows d;
       (_, d) \<leftarrow> appendChild tableRows rows d;
       countriesToTable_loop numberToString builtinToString rest d
     }"

definition countriesToTable ::
  "(jsnum \<Rightarrow> string) \<Rightarrow> (string \<Rightarrow> string) \<Rightarrow> country list \<Rightarrow> dom_state
     \<Rightarrow> dom_state option" where
  "countriesToTable numberToString builtinToString countries d =
     do {
       d \<leftarrow> clearTable d;
       countriesToTable_loop numberToString builtinToString countries d
     }"

section \<open>Vocabulary of the specification\<close>

subsection \<open>Datasets and projections\<close>

text \<open>
  A dataset object is a CountryRecord: its \<open>name\<close> is a name object. The dataset is well
  formed when every slot of \<open>all\<close> refers to an object that has been created and is a
  CountryRecord.
\<close>

fun is_names :: "name_val \<Rightarrow> bool" where
  "is_names (Names m) = True"
| "is_names v = False"

definition wf_dataset :: "js_state \<Rightarrow> bool" where
  "wf_dataset s = (\<forall>r \<in> set (all s). r < next_ref s \<and> is_names (name (heap s r)))"

text \<open>The records of the dataset, in dataset order.\<close>

definition dataset :: "js_state \<Rightarrow> country list" where
  "dataset s = map (heap s) (all s)"

text \<open>
  ProjectedCountry (section 3 of the specification): the record with \<open>name\<close> replaced by
  \<open>name[language]\<close>, and the record as it is when the language is falsy.
\<close>

definition projected :: "string \<Rightarrow> country \<Rightarrow> country" where
  "projected language c =
     (if truthy_str language
      then (case get_prop (name c) language of None \<Rightarrow> c | Some v \<Rightarrow> c\<lparr>name := v\<rparr>)
      else c)"

subsection \<open>An example dataset\<close>

text \<open>Two records, Canada and Japan, in a store that holds nothing else.\<close>

definition no_country :: country where
  "no_country = \<lparr>code = [], continent = [], areaInKm2 = NaN, population = NaN,
                  capital = [], name = Undefined\<rparr>"

definition canada :: country where
  "canada = \<lparr>code = ''CA'', continent = ''Americas'', areaInKm2 = Fin 9984670,
              population = Fin 36624199, capital = ''Ottawa'',
              name = Names [''English'' \<mapsto> ''Canada'', ''French'' \<mapsto> ''Canada'']\<rparr>"

definition japan :: country where
  "japan = \<lparr>code = ''JP'', continent = ''Asia'', areaInKm2 = Fin 377930,
             population = Fin 126000000, capital = ''Tokyo'',
             name = Names [''English'' \<mapsto> ''Japan'', ''French'' \<mapsto> ''Japon'']\<rparr>"

definition example_state :: js_state where
  "example_state = \<lparr>all = [0, 1], heap = (\<lambda>r. no_country)(0 := canada, 1 := japan), next_ref = 2\<rparr>"

subsection \<open>Documents and rows\<close>

text \<open>
  The document is well formed when every child listed by a node has been created, and the
  table body exists and is an element that has been created.
\<close>

fun is_element :: "node \<Rightarrow> bool" where
  "is_element (Element t a cs) = True"
| "is_element (Text x) = False"

definition wf_dom :: "dom_state \<Rightarrow> bool" where
  "wf_dom d =
     ((\<forall>r. \<forall>c \<in> set (children_of d r). c < next_node d)
      \<and> (case table_rows d of
           None \<Rightarrow> False
         | Some t \<Rightarrow> t < next_node d \<and> is_element (nodes d t)))"

text \<open>
  The rows of the table body, in order; \<open>None\<close> when the page has no table body.
\<close>

definition table_body :: "dom_state \<Rightarrow> ref list option" where
  "table_body d = map_option (children_of d) (table_rows d)"

text \<open>The tree below a node, read from the store down to the given depth.\<close>

datatype tree = TElement string "string option" "tree list" | TText string

fun tree_of :: "nat \<Rightarrow> dom_state \<Rightarrow> ref \<Rightarrow> tree" where
  "tree_of 0 d r =
     (case nodes d r of Element t a cs \<Rightarrow> TElement t a [] | Text x \<Rightarrow> TText x)"
| "tree_of (Suc k) d r =
     (case nodes d r of
        Element t a cs \<Rightarrow> TElement t a (map (tree_of k d) cs)
      | Text x \<Rightarrow> TText x)"

text \<open>
  The row of a country as the claim describes it: a \<open>tr\<close> of seven \<open>td\<close> cells holding the
  flag image, the code, the name, the continent, the area, the population and the capital.
\<close>

definition expected_row :: "(jsnum \<Rightarrow> string) \<Rightarrow> (string \<Rightarrow> string) \<Rightarrow> country \<Rightarrow> tree" where
  "expected_row numberToString builtinToString c =
     TElement ''tr'' None
       [TElement ''td'' None [TElement ''img'' (Some (''flags/'' @ code c @ ''.png'')) []],
        TElement ''td'' None [TText (code c)],
        TElement ''td'' None [TText (name_to_string builtinToString (name c))],
        TElement ''td'' None [TText (continent c)],
        TElement ''td'' None [TText (numberToString (areaInKm2 c))],
        TElement ''td'' None [TText (numberToString (population c))],
        TElement ''td'' None [TText (capital c)]]"

subsection \<open>An example document\<close>

text \<open>
  A page whose table body (node 0) already shows two rows (nodes 1 and 2, each with one
  cell), as after an earlier rendering.
\<close>

definition example_dom :: dom_state where
  "example_dom =
     \<lparr>nodes = (\<lambda>r. Text [])
        (0 := Element ''tbody'' None [1, 2],
         1 := Element ''tr'' None [3], 2 := Element ''tr'' None [4],
         3 := Element ''td'' None [], 4 := Element ''td'' None []),
      next_node = 5, table_rows = Some 0\<rparr>"

text \<open>The same page with an empty table body.\<close>

definition example_dom_empty :: dom_state where
  "example_dom_empty =
     \<lparr>nodes = (\<lambda>r. Text [])
        (0 := Element ''tbody'' None [],
         1 := Element ''tr'' None [3], 2 := Element ''tr'' None [4],
         3 := Element ''td'' None [], 4 := Element ''td'' None []),
      next_node = 5, table_rows = Some 0\<rparr>"

text \<open>A number formatter that knows the decimal forms of the example's figures.\<close>

definition example_number_text :: "jsnum \<Rightarrow> string" where
  "example_number_text n =
     (if n = Fin 9984670 then ''9984670''
      else if n = Fin 36624199 then ''36624199''
      else if n = Fin 377930 then ''377930''
      else ''126000000'')"

text \<open>The text of a built-in function, in the form most engines print it.\<close>

definition example_builtin_text :: "string \<Rightarrow> string" where
  "example_builtin_text k = ''function '' @ k @ ''() { [native code] }''"

section \<open>Properties of the query layer\<close>

declare getByLanguage_loop.simps [simp del]

lemma wf_example_state: "wf_dataset example_state"
  by (simp add: wf_dataset_def example_state_def canada_def japan_def)

lemma dataset_example_state: "dataset example_state = [canada, japan]"
  by (simp add: dataset_def example_state_def)

lemma get_prop_names: "is_names v \<Longrightarrow> \<exists>w. get_prop v key = Some w"
  by (cases v) simp_all

subsection \<open>One iteration of \<open>getByLanguage\<close>, and the whole loop\<close>

lemma getByLanguage_step:
  assumes wf: "wf_dataset s" and i: "i < length (all s)" and len: "length newArr = i"
  shows "\<exists>s2. getByLanguage_loop language i newArr s =
            getByLanguage_loop language (Suc i) (newArr @ [next_ref s]) s2
         \<and> all s2 = all s \<and> next_ref s2 = Suc (next_ref s)
         \<and> heap s2 = (heap s)(next_ref s := projected language (heap s (all s ! i)))"
proof -
  let ?r = "all s ! i"
  from wf i have r: "?r < next_ref s" and nm: "is_names (name (heap s ?r))"
    by (auto simp: wf_dataset_def)
  from get_prop_names[OF nm] obtain w where w: "get_prop (name (heap s ?r)) language = Some w"
    by blast
  show ?thesis
  proof (cases "truthy_str language")
    case True
    let ?s2 = "set_name (next_ref s) w (snd (object_assign_new (heap s ?r) s))"
    have "getByLanguage_loop language i newArr s =
            getByLanguage_loop language (Suc i) (newArr @ [next_ref s]) ?s2"
      using True i len r w
      by (subst getByLanguage_loop.simps) (simp add: object_assign_new_def nth_append)
    moreover have "heap ?s2 = (heap s)(next_ref s := projected language (heap s ?r))"
      using True w by (simp add: set_name_def object_assign_new_def projected_def)
    ultimately show ?thesis
      by (intro exI[of _ ?s2]) (simp add: set_name_def object_assign_new_def)
  next
    case False
    let ?s2 = "snd (object_assign_new (heap s ?r) s)"
    have "getByLanguage_loop language i newArr s =
            getByLanguage_loop language (Suc i) (newArr @ [next_ref s]) ?s2"
      using False i
      by (subst getByLanguage_loop.simps) (simp add: object_assign_new_def)
    moreover have "heap ?s2 = (heap s)(next_ref s := projected language (heap s ?r))"
      using False by (simp add: object_assign_new_def projected_def)
    ultimately show ?thesis
      by (intro exI[of _ ?s2]) (simp add: object_assign_new_def)
  qed
qed

lemma getByLanguage_loop_run:
  assumes "wf_dataset s" and "i \<le> length (all s)" and "length newArr = i"
    and "n = length (all s) - i"
  shows "\<exists>s'. getByLanguage_loop language i newArr s =
                 Some (newArr @ [next_ref s ..< next_ref s + n], s')
           \<and> all s' = all s \<and> next_ref s' = next_ref s + n
           \<and> (\<forall>r < next_ref s. heap s' r = heap s r)
           \<and> (\<forall>k < n. heap s' (next_ref s + k) = projected language (heap s (all s ! (i + k))))"
  using assms
proof (induction n arbitrary: i newArr s)
  case 0
  then show ?case by (subst getByLanguage_loop.simps) simp
next
  case (Suc n)
  then have i: "i < length (all s)" by simp
  from getByLanguage_step[OF Suc.prems(1) i Suc.prems(3), of language]
  obtain s2 where step: "getByLanguage_loop language i newArr s =
            getByLanguage_loop language (Suc i) (newArr @ [next_ref s]) s2"
    and all2: "all s2 = all s" and next2: "next_ref s2 = Suc (next_ref s)"
    and heap2: "heap s2 = (heap s)(next_ref s := projected language (heap s (all s ! i)))"
    by blast
  have old: "heap s2 r = heap s r" if "r < next_ref s" for r
    using that heap2 by simp
  have wf2: "wf_dataset s2"
    using Suc.prems(1) all2 next2 old by (auto simp: wf_dataset_def)
  have "\<exists>s'. getByLanguage_loop language (Suc i) (newArr @ [next_ref s]) s2 =
                 Some ((newArr @ [next_ref s]) @ [next_ref s2 ..< next_ref s2 + n], s')
           \<and> all s' = all s2 \<and> next_ref s' = next_ref s2 + n
           \<and> (\<forall>r < next_ref s2. heap s' r = heap s2 r)
           \<and> (\<forall>k < n. heap s' (next_ref s2 + k) =
                  projected language (heap s2 (all s2 ! (Suc i + k))))"
    using Suc.prems i all2 by (intro Suc.IH[OF wf2]) auto
  then obtain s' where run: "getByLanguage_loop language (Suc i) (newArr @ [next_ref s]) s2 =
                 Some ((newArr @ [next_ref s]) @ [next_ref s2 ..< next_ref s2 + n], s')"
    and all': "all s' = all s2" and next': "next_ref s' = next_ref s2 + n"
    and old': "\<forall>r < next_ref s2. heap s' r = heap s2 r"
    and new': "\<forall>k < n. heap s' (next_ref s2 + k) =
                  projected language (heap s2 (all s2 ! (Suc i + k)))"
    by blast
  have lst: "(newArr @ [next_ref s]) @ [next_ref s2 ..< next_ref s2 + n]
             = newArr @ [next_ref s ..< next_ref s + Suc n]"
    using next2 by (simp add: upt_conv_Cons)
  have in_all: "all s ! j < next_ref s" if "j < length (all s)" for j
    using Suc.prems(1) that by (auto simp: wf_dataset_def)
  have new: "heap s' (next_ref s + k) = projected language (heap s (all s ! (i + k)))"
    if k: "k < Suc n" for k
  proof (cases k)
    case 0
    then show ?thesis using old' next2 heap2 by simp
  next
    case (Suc k')
    with k Suc.prems have "Suc i + k' < length (all s)" by simp
    then have "heap s2 (all s ! (Suc i + k')) = heap s (all s ! (Suc i + k'))"
      using in_all old by blast
    then show ?thesis using new' Suc k next2 all2 by simp
  qed
  show ?case
    using step run lst all' all2 next' next2 old' old new
    by (intro exI[of _ s']) (simp del: upt_Suc)
qed

lemma getByLanguage_run:
  assumes "wf_dataset s"
  shows "\<exists>s'. getByLanguage arg s =
                 Some ([next_ref s ..< next_ref s + length (all s)], s')
           \<and> all s' = all s \<and> next_ref s' = next_ref s + length (all s)
           \<and> (\<forall>r < next_ref s. heap s' r = heap s r)
           \<and> (\<forall>k < length (all s). heap s' (next_ref s + k) =
                  projected (default_language arg) (heap s (all s ! k)))"
  using getByLanguage_loop_run[OF assms, of 0 "[]" "length (all s)" "default_language arg"]
  by (simp add: getByLanguage_def)

lemma getByLanguage_objects:
  assumes "wf_dataset s" and "getByLanguage arg s = Some (newArr, s')"
  shows "map (heap s') newArr = map (projected (default_language arg)) (dataset s)"
    and "all s' = all s" and "\<forall>r < next_ref s. heap s' r = heap s r"
    and "newArr = [next_ref s ..< next_ref s + length (all s)]"
    and "next_ref s' = next_ref s + length (all s)"
proof -
  from getByLanguage_run[OF assms(1), of arg] assms(2)
  have arr: "newArr = [next_ref s ..< next_ref s + length (all s)]"
    and a: "all s' = all s" and n: "next_ref s' = next_ref s + length (all s)"
    and old: "\<forall>r < next_ref s. heap s' r = heap s r"
    and new: "\<forall>k < length (all s). heap s' (next_ref s + k) =
                  projected (default_language arg) (heap s (all s ! k))"
    by auto
  show "map (heap s') newArr = map (projected (default_language arg)) (dataset s)"
    using arr new by (intro nth_equalityI) (simp_all add: dataset_def)
  show "all s' = all s" by (rule a)
  show "\<forall>r < next_ref s. heap s' r = heap s r" by (rule old)
  show "newArr = [next_ref s ..< next_ref s + length (all s)]" by (rule arr)
  show "next_ref s' = next_ref s + length (all s)" by (rule n)
qed

lemma wf_dataset_preserved:
  assumes "wf_dataset s" and "all s' = all s" and "next_ref s \<le> next_ref s'"
    and "\<forall>r < next_ref s. heap s' r = heap s r"
  shows "wf_dataset s'" and "dataset s' = dataset s"
  using assms by (auto simp: wf_dataset_def dataset_def)

subsection \<open>The two filters\<close>

lemma getByPopulation_loop_eq:
  "getByPopulation_loop mn mx cs newArr s =
     rev (filter (\<lambda>c. js_le mn (population (heap s c)) \<and>
                      (truthy_arg mx \<longrightarrow> js_le (population (heap s c)) (to_number mx))) cs)
     @ newArr"
  by (induction cs arbitrary: newArr) (auto simp: js_ge_def)

lemma getByAreaAndContinent_loop_eq:
  "getByAreaAndContinent_loop cont minArea cs newArr s =
     rev (filter (\<lambda>c. continent (heap s c) = cont \<and> js_le minArea (areaInKm2 (heap s c))) cs)
     @ newArr"
  by (induction cs arbitrary: newArr) (auto simp: js_ge_def)

lemma getByPopulation_run:
  assumes "wf_dataset s"
  shows "\<exists>res s'. getByPopulation mn mx s = Some (res, s')
      \<and> getByLanguage (Some ''English'') s =
          Some ([next_ref s ..< next_ref s + length (all s)], s')
      \<and> map (heap s') res =
          rev (filter (\<lambda>c. js_le mn (population c) \<and>
                           (truthy_arg mx \<longrightarrow> js_le (population c) (to_number mx)))
                 (map (projected ''English'') (dataset s)))"
proof -
  from getByLanguage_run[OF assms, of "Some ''English''"]
  obtain s' where g: "getByLanguage (Some ''English'') s =
      Some ([next_ref s ..< next_ref s + length (all s)], s')" by blast
  from getByLanguage_objects(1)[OF assms g]
  have objs: "map (heap s') [next_ref s ..< next_ref s + length (all s)]
              = map (projected ''English'') (dataset s)"
    by simp
  have "map (heap s') (rev (filter (\<lambda>c. js_le mn (population (heap s' c)) \<and>
                      (truthy_arg mx \<longrightarrow> js_le (population (heap s' c)) (to_number mx)))
                 [next_ref s ..< next_ref s + length (all s)]))
        = rev (filter (\<lambda>c. js_le mn (population c) \<and>
                           (truthy_arg mx \<longrightarrow> js_le (population c) (to_number mx)))
                 (map (heap s') [next_ref s ..< next_ref s + length (all s)]))"
    by (simp add: rev_map filter_map comp_def)
  then show ?thesis
    using g objs by (simp add: getByPopulation_def getByPopulation_loop_eq)
qed

lemma getByAreaAndContinent_run:
  assumes "wf_dataset s"
  shows "\<exists>res s'. getByAreaAndContinent cont minArea s = Some (res, s')
      \<and> getByLanguage (Some ''English'') s =
          Some ([next_ref s ..< next_ref s + length (all s)], s')
      \<and> map (heap s') res =
          rev (filter (\<lambda>c. continent c = cont \<and> js_le minArea (areaInKm2 c))
                 (map (projected ''English'') (dataset s)))"
proof -
  from getByLanguage_run[OF assms, of "Some ''English''"]
  obtain s' where g: "getByLanguage (Some ''English'') s =
      Some ([next_ref s ..< next_ref s + length (all s)], s')" by blast
  from getByLanguage_objects(1)[OF assms g]
  have objs: "map (heap s') [next_ref s ..< next_ref s + length (all s)]
              = map (projected ''English'') (dataset s)"
    by simp
  have "map (heap s') (rev (filter (\<lambda>c. continent (heap s' c) = cont \<and>
                                        js_le minArea (areaInKm2 (heap s' c)))
                 [next_ref s ..< next_ref s + length (all s)]))
        = rev (filter (\<lambda>c. continent c = cont \<and> js_le minArea (areaInKm2 c))
                 (map (heap s') [next_ref s ..< next_ref s + length (all s)]))"
    by (simp add: rev_map filter_map comp_def)
  then show ?thesis
    using g objs by (simp add: getByAreaAndContinent_def getByAreaAndContinent_loop_eq)
qed

section \<open>The claims about the query layer\<close>

text \<open>
  C1. For a well-formed dataset and any string \<open>language\<close>, \<open>getByLanguage(language)\<close>
  returns an array as long as \<open>all\<close>; its element at index \<open>i\<close> is a new object that
  equals the dataset's record at index \<open>i\<close> except that \<open>name\<close> holds
  \<open>name[language]\<close> when \<open>language\<close> is truthy, and equals that record, name object
  included, when \<open>language\<close> is the empty string. Calling it without an argument is
  calling it with \<open>English\<close>.
\<close>

theorem getByLanguage_projects_each_record:
  assumes "wf_dataset s"
  shows "\<exists>newArr s'.
           getByLanguage (Some language) s = Some (newArr, s')
         \<and> length newArr = length (all s)
         \<and> (\<forall>i < length (all s).
               next_ref s \<le> newArr ! i
             \<and> (truthy_str language \<longrightarrow>
                  (\<exists>v. get_prop (name (heap s (all s ! i))) language = Some v
                     \<and> heap s' (newArr ! i) = (heap s (all s ! i))\<lparr>name := v\<rparr>))
             \<and> (\<not> truthy_str language \<longrightarrow> heap s' (newArr ! i) = heap s (all s ! i)))
         \<and> getByLanguage None s = getByLanguage (Some ''English'') s"
proof -
  from getByLanguage_run[OF assms, of "Some language"]
  obtain s' where g: "getByLanguage (Some language) s =
                        Some ([next_ref s ..< next_ref s + length (all s)], s')"
    and new: "\<forall>k < length (all s). heap s' (next_ref s + k) =
                projected language (heap s (all s ! k))"
    by auto
  have names: "\<exists>w. get_prop (name (heap s (all s ! i))) language = Some w"
    if "i < length (all s)" for i
    using assms that by (intro get_prop_names) (auto simp: wf_dataset_def)
  have each: "next_ref s \<le> [next_ref s ..< next_ref s + length (all s)] ! i
       \<and> (truthy_str language \<longrightarrow>
            (\<exists>v. get_prop (name (heap s (all s ! i))) language = Some v
               \<and> heap s' ([next_ref s ..< next_ref s + length (all s)] ! i)
                   = (heap s (all s ! i))\<lparr>name := v\<rparr>))
       \<and> (\<not> truthy_str language \<longrightarrow>
            heap s' ([next_ref s ..< next_ref s + length (all s)] ! i) = heap s (all s ! i))"
    if i: "i < length (all s)" for i
  proof -
    from names[OF i] obtain w where w: "get_prop (name (heap s (all s ! i))) language = Some w"
      by blast
    from new i have "heap s' (next_ref s + i) = projected language (heap s (all s ! i))"
      by simp
    then show ?thesis using i w by (simp add: projected_def)
  qed
  have "getByLanguage None s = getByLanguage (Some ''English'') s"
    by (simp add: getByLanguage_def)
  with g each show ?thesis
    by (intro exI[of _ "[next_ref s ..< next_ref s + length (all s)]"] exI[of _ s']) simp
qed

theorem getByLanguage_projects_each_record_witness:
  "wf_dataset example_state
   \<and> (\<exists>newArr s'.
         getByLanguage (Some ''French'') example_state = Some (newArr, s')
       \<and> length newArr = 2
       \<and> heap s' (newArr ! 0) = canada\<lparr>name := Str ''Canada''\<rparr>
       \<and> heap s' (newArr ! 1) = japan\<lparr>name := Str ''Japon''\<rparr>)"
proof -
  from getByLanguage_projects_each_record[OF wf_example_state, of "''French''"]
  obtain newArr s' where g: "getByLanguage (Some ''French'') example_state = Some (newArr, s')"
    and len: "length newArr = length (all example_state)"
    and each: "\<forall>i < length (all example_state).
        truthy_str ''French'' \<longrightarrow>
          (\<exists>v. get_prop (name (heap example_state (all example_state ! i))) ''French'' = Some v
             \<and> heap s' (newArr ! i) = (heap example_state (all example_state ! i))\<lparr>name := v\<rparr>)"
    by blast
  from each[rule_format, of 0] have "heap s' (newArr ! 0) = canada\<lparr>name := Str ''Canada''\<rparr>"
    by (auto simp: example_state_def truthy_str_def canada_def)
  moreover from each[rule_format, of 1]
  have "heap s' (newArr ! 1) = japan\<lparr>name := Str ''Japon''\<rparr>"
    by (auto simp: example_state_def truthy_str_def japan_def)
  ultimately show ?thesis
    using g len wf_example_state by (simp add: example_state_def)
qed

text \<open>
  C2. On a well-formed dataset, \<open>getByPopulation(minPopulation, maxPopulation)\<close> returns,
  each as often as it occurs, exactly the English projections of the records whose
  population is at least \<open>minPopulation\<close> and, when \<open>maxPopulation\<close> is truthy, at most
  \<open>maxPopulation\<close>; when \<open>maxPopulation\<close> is left out or falsy the second condition
  does not apply.
\<close>

theorem getByPopulation_includes_exactly:
  assumes "wf_dataset s"
  shows "\<exists>res s'.
           getByPopulation minPopulation maxPopulation s = Some (res, s')
         \<and> (truthy_arg maxPopulation \<longrightarrow>
              mset (map (heap s') res) =
              mset (filter (\<lambda>c. js_le minPopulation (population c)
                               \<and> js_le (population c) (to_number maxPopulation))
                      (map (projected ''English'') (dataset s))))
         \<and> (\<not> truthy_arg maxPopulation \<longrightarrow>
              mset (map (heap s') res) =
              mset (filter (\<lambda>c. js_ge (population c) minPopulation)
                      (map (projected ''English'') (dataset s))))"
proof -
  from getByPopulation_run[OF assms, of minPopulation maxPopulation]
  obtain res s' where g: "getByPopulation minPopulation maxPopulation s = Some (res, s')"
    and objs: "map (heap s') res =
          rev (filter (\<lambda>c. js_le minPopulation (population c) \<and>
                 (truthy_arg maxPopulation \<longrightarrow> js_le (population c) (to_number maxPopulation)))
                 (map (projected ''English'') (dataset s)))"
    by blast
  show ?thesis
    using g objs by (intro exI[of _ res] exI[of _ s']) (simp add: js_ge_def)
qed

theorem getByPopulation_includes_exactly_witness:
  "wf_dataset example_state
   \<and> (\<exists>res s'. getByPopulation (Fin 100000000) None example_state = Some (res, s')
        \<and> mset (map (heap s') res) = {#japan\<lparr>name := Str ''Japan''\<rparr>#})
   \<and> (\<exists>res s'. getByPopulation (Fin 1000000) (Some (Fin 40000000)) example_state = Some (res, s')
        \<and> mset (map (heap s') res) = {#canada\<lparr>name := Str ''Canada''\<rparr>#})"
  using getByPopulation_includes_exactly[OF wf_example_state, of "Fin 100000000" None]
        getByPopulation_includes_exactly[OF wf_example_state, of "Fin 1000000" "Some (Fin 40000000)"]
        wf_example_state
  by (simp add: dataset_example_state projected_def truthy_str_def js_ge_def canada_def japan_def)

text \<open>
  C3. The results of \<open>getByPopulation\<close> and of \<open>getByAreaAndContinent\<close> are the matching
  records in the reverse of dataset order: the reversal of the subsequence of the
  (English-projected) dataset that passes the filter.
\<close>

theorem filters_return_reverse_dataset_order:
  assumes "wf_dataset s"
  shows "(\<exists>res s'.
            getByPopulation minPopulation maxPopulation s = Some (res, s')
          \<and> map (heap s') res =
              rev (filter (\<lambda>c. js_ge (population c) minPopulation
                               \<and> (truthy_arg maxPopulation \<longrightarrow>
                                    js_le (population c) (to_number maxPopulation)))
                     (map (projected ''English'') (dataset s))))
       \<and> (\<exists>res s'.
            getByAreaAndContinent cont minArea s = Some (res, s')
          \<and> map (heap s') res =
              rev (filter (\<lambda>c. continent c = cont \<and> js_ge (areaInKm2 c) minArea)
                     (map (projected ''English'') (dataset s))))"
proof -
  from getByPopulation_run[OF assms, of minPopulation maxPopulation]
  have "\<exists>res s'.
            getByPopulation minPopulation maxPopulation s = Some (res, s')
          \<and> map (heap s') res =
              rev (filter (\<lambda>c. js_ge (population c) minPopulation
                               \<and> (truthy_arg maxPopulation \<longrightarrow>
                                    js_le (population c) (to_number maxPopulation)))
                     (map (projected ''English'') (dataset s)))"
    unfolding js_ge_def by blast
  moreover from getByAreaAndContinent_run[OF assms, of cont minArea]
  have "\<exists>res s'.
            getByAreaAndContinent cont minArea s = Some (res, s')
          \<and> map (heap s') res =
              rev (filter (\<lambda>c. continent c = cont \<and> js_ge (areaInKm2 c) minArea)
                     (map (projected ''English'') (dataset s)))"
    unfolding js_ge_def by blast
  ultimately show ?thesis by blast
qed

theorem filters_return_reverse_dataset_order_witness:
  "wf_dataset example_state
   \<and> (\<exists>res s'. getByPopulation (Fin 1000) None example_state = Some (res, s')
        \<and> map (heap s') res = [japan\<lparr>name := Str ''Japan''\<rparr>, canada\<lparr>name := Str ''Canada''\<rparr>])
   \<and> (\<exists>res s'. getByAreaAndContinent ''Asia'' (Fin 0) example_state = Some (res, s')
        \<and> map (heap s') res = [japan\<lparr>name := Str ''Japan''\<rparr>])"
  using filters_return_reverse_dataset_order[OF wf_example_state,
          of "Fin 1000" None "''Asia''" "Fin 0"]
        wf_example_state
  by (simp add: dataset_example_state projected_def truthy_str_def js_ge_def canada_def japan_def)

text \<open>
  C4. \<open>getByPopulation(minPopulation, 0)\<close> is \<open>getByPopulation(minPopulation)\<close>: the
  same array and the same store, on every state.
\<close>

theorem getByPopulation_max_zero_is_absent:
  "getByPopulation minPopulation (Some (Fin 0)) s = getByPopulation minPopulation None s"
  by (simp add: getByPopulation_def getByPopulation_loop_eq split: option.splits)

text \<open>
  C5. On a well-formed dataset, \<open>getByAreaAndContinent(continent, minArea)\<close> returns, each
  as often as it occurs, exactly the English projections of the records whose \<open>continent\<close>
  is the same string as the argument and whose \<open>areaInKm2\<close> is at least \<open>minArea\<close>. On a
  dataset whose areas are non-negative numbers (section 3 of the specification),
  \<open>getByAreaAndContinent("Asia", 0)\<close> returns every record of Asia.
\<close>

theorem getByAreaAndContinent_includes_exactly:
  assumes "wf_dataset s"
  shows "(\<exists>res s'.
            getByAreaAndContinent cont minArea s = Some (res, s')
          \<and> mset (map (heap s') res) =
              mset (filter (\<lambda>c. continent c = cont \<and> js_ge (areaInKm2 c) minArea)
                      (map (projected ''English'') (dataset s))))
       \<and> ((\<forall>c \<in> set (dataset s). js_ge (areaInKm2 c) (Fin 0)) \<longrightarrow>
            (\<exists>res s'.
               getByAreaAndContinent ''Asia'' (Fin 0) s = Some (res, s')
             \<and> mset (map (heap s') res) =
                 mset (filter (\<lambda>c. continent c = ''Asia'')
                         (map (projected ''English'') (dataset s)))))"
proof -
  have area: "areaInKm2 (projected language c) = areaInKm2 c" for language c
    by (simp add: projected_def split: option.splits)
  have general: "\<exists>res s'.
            getByAreaAndContinent k a s = Some (res, s')
          \<and> mset (map (heap s') res) =
              mset (filter (\<lambda>c. continent c = k \<and> js_ge (areaInKm2 c) a)
                      (map (projected ''English'') (dataset s)))" for k a
  proof -
    from getByAreaAndContinent_run[OF assms, of k a]
    obtain res s' where g: "getByAreaAndContinent k a s = Some (res, s')"
      and objs: "map (heap s') res =
            rev (filter (\<lambda>c. continent c = k \<and> js_le a (areaInKm2 c))
                   (map (projected ''English'') (dataset s)))"
      by blast
    show ?thesis
      using g objs by (intro exI[of _ res] exI[of _ s']) (simp add: js_ge_def)
  qed
  have asia: "\<exists>res s'.
               getByAreaAndContinent ''Asia'' (Fin 0) s = Some (res, s')
             \<and> mset (map (heap s') res) =
                 mset (filter (\<lambda>c. continent c = ''Asia'')
                         (map (projected ''English'') (dataset s)))"
    if nonneg: "\<forall>c \<in> set (dataset s). js_ge (areaInKm2 c) (Fin 0)"
  proof -
    have "filter (\<lambda>c. continent c = ''Asia'' \<and> js_ge (areaInKm2 c) (Fin 0))
            (map (projected ''English'') (dataset s))
          = filter (\<lambda>c. continent c = ''Asia'') (map (projected ''English'') (dataset s))"
      using nonneg by (intro filter_cong) (auto simp: area)
    with general[of "''Asia''" "Fin 0"] show ?thesis by simp
  qed
  from general[of cont minArea] asia show ?thesis by blast
qed

theorem getByAreaAndContinent_includes_exactly_witness:
  "wf_dataset example_state
   \<and> dataset example_state = [canada, japan]
   \<and> js_ge (areaInKm2 canada) (Fin 0) \<and> js_ge (areaInKm2 japan) (Fin 0)
   \<and> (\<exists>res s'. getByAreaAndContinent ''Americas'' (Fin 1000000) example_state = Some (res, s')
        \<and> mset (map (heap s') res) = {#canada\<lparr>name := Str ''Canada''\<rparr>#})
   \<and> (\<exists>res s'. getByAreaAndContinent ''Asia'' (Fin 0) example_state = Some (res, s')
        \<and> mset (map (heap s') res) = {#japan\<lparr>name := Str ''Japan''\<rparr>#})"
proof -
  have nonneg: "\<forall>c \<in> set (dataset example_state). js_ge (areaInKm2 c) (Fin 0)"
    by (simp add: dataset_example_state js_ge_def canada_def japan_def)
  from getByAreaAndContinent_includes_exactly[OF wf_example_state, of "''Americas''" "Fin 1000000"]
       nonneg wf_example_state
  show ?thesis
    by (simp add: dataset_example_state projected_def truthy_str_def js_ge_def
                  canada_def japan_def)
qed

text \<open>
  C6. No query changes the dataset: after \<open>getByLanguage\<close>, \<open>getByPopulation\<close> or
  \<open>getByAreaAndContinent\<close> on a well-formed dataset, the array \<open>all\<close> is the same and
  every object that existed before the call, the dataset's records with their name objects
  among them, is the same. So of two successive calls of \<open>getByLanguage\<close> the second
  also works on the original records, and the result of the first is not touched by the
  second.
\<close>

theorem queries_never_mutate_dataset:
  assumes "wf_dataset s"
  shows "(\<exists>res s'. getByLanguage arg s = Some (res, s')
            \<and> all s' = all s \<and> (\<forall>r < next_ref s. heap s' r = heap s r)
            \<and> dataset s' = dataset s)
       \<and> (\<exists>res s'. getByPopulation minPopulation maxPopulation s = Some (res, s')
            \<and> all s' = all s \<and> (\<forall>r < next_ref s. heap s' r = heap s r)
            \<and> dataset s' = dataset s)
       \<and> (\<exists>res s'. getByAreaAndContinent cont minArea s = Some (res, s')
            \<and> all s' = all s \<and> (\<forall>r < next_ref s. heap s' r = heap s r)
            \<and> dataset s' = dataset s)
       \<and> (\<exists>res1 s1 res2 s2.
              getByLanguage (Some language1) s = Some (res1, s1)
            \<and> getByLanguage (Some language2) s1 = Some (res2, s2)
            \<and> map (heap s2) res1 = map (projected language1) (dataset s)
            \<and> map (heap s2) res2 = map (projected language2) (dataset s)
            \<and> dataset s2 = dataset s)"
proof -
  have lang: "\<exists>res s'. getByLanguage a t = Some (res, s')
            \<and> all s' = all t \<and> (\<forall>r < next_ref t. heap s' r = heap t r)
            \<and> dataset s' = dataset t \<and> wf_dataset s'
            \<and> next_ref t \<le> next_ref s' \<and> (\<forall>r \<in> set res. r < next_ref s')
            \<and> map (heap s') res = map (projected (default_language a)) (dataset t)"
    if wf: "wf_dataset t" for a t
  proof -
    from getByLanguage_run[OF wf, of a]
    obtain s' where g: "getByLanguage a t =
                          Some ([next_ref t ..< next_ref t + length (all t)], s')"
      by blast
    note o = getByLanguage_objects[OF wf g]
    have le: "next_ref t \<le> next_ref s'" using o(5) by simp
    show ?thesis
      using g o(1,2,3) o(5) wf_dataset_preserved[OF wf o(2) le o(3)]
      by (intro exI[of _ "[next_ref t ..< next_ref t + length (all t)]"] exI[of _ s']) simp
  qed
  have pop: "\<exists>res s'. getByPopulation minPopulation maxPopulation s = Some (res, s')
            \<and> all s' = all s \<and> (\<forall>r < next_ref s. heap s' r = heap s r)
            \<and> dataset s' = dataset s"
  proof -
    from getByPopulation_run[OF assms, of minPopulation maxPopulation]
    obtain res s' where p: "getByPopulation minPopulation maxPopulation s = Some (res, s')"
      and g: "getByLanguage (Some ''English'') s =
                Some ([next_ref s ..< next_ref s + length (all s)], s')"
      by blast
    from lang[OF assms, of "Some ''English''"] g p show ?thesis by auto
  qed
  have area: "\<exists>res s'. getByAreaAndContinent cont minArea s = Some (res, s')
            \<and> all s' = all s \<and> (\<forall>r < next_ref s. heap s' r = heap s r)
            \<and> dataset s' = dataset s"
  proof -
    from getByAreaAndContinent_run[OF assms, of cont minArea]
    obtain res s' where p: "getByAreaAndContinent cont minArea s = Some (res, s')"
      and g: "getByLanguage (Some ''English'') s =
                Some ([next_ref s ..< next_ref s + length (all s)], s')"
      by blast
    from lang[OF assms, of "Some ''English''"] g p show ?thesis by auto
  qed
  have twice: "\<exists>res1 s1 res2 s2.
              getByLanguage (Some language1) s = Some (res1, s1)
            \<and> getByLanguage (Some language2) s1 = Some (res2, s2)
            \<and> map (heap s2) res1 = map (projected language1) (dataset s)
            \<and> map (heap s2) res2 = map (projected language2) (dataset s)
            \<and> dataset s2 = dataset s"
  proof -
    from lang[OF assms, of "Some language1"]
    obtain res1 s1 where g1: "getByLanguage (Some language1) s = Some (res1, s1)"
      and d1: "dataset s1 = dataset s" and wf1: "wf_dataset s1"
      and in1: "\<forall>r \<in> set res1. r < next_ref s1"
      and m1: "map (heap s1) res1 = map (projected language1) (dataset s)"
      by auto
    from lang[OF wf1, of "Some language2"]
    obtain res2 s2 where g2: "getByLanguage (Some language2) s1 = Some (res2, s2)"
      and old2: "\<forall>r < next_ref s1. heap s2 r = heap s1 r"
      and d2: "dataset s2 = dataset s1"
      and m2: "map (heap s2) res2 = map (projected language2) (dataset s1)"
      by auto
    have "map (heap s2) res1 = map (heap s1) res1"
      using in1 old2 by (intro map_cong) auto
    with g1 g2 m1 m2 d1 d2 show ?thesis by auto
  qed
  from lang[OF assms, of arg] pop area twice show ?thesis by blast
qed

theorem queries_never_mutate_dataset_witness:
  "wf_dataset example_state
   \<and> (\<exists>res s'. getByPopulation (Fin 0) None example_state = Some (res, s')
        \<and> all s' = [0, 1] \<and> dataset s' = [canada, japan])
   \<and> (\<exists>res1 s1 res2 s2.
          getByLanguage (Some ''English'') example_state = Some (res1, s1)
        \<and> getByLanguage (Some ''French'') s1 = Some (res2, s2)
        \<and> map (heap s2) res1 = [canada\<lparr>name := Str ''Canada''\<rparr>, japan\<lparr>name := Str ''Japan''\<rparr>]
        \<and> map (heap s2) res2 = [canada\<lparr>name := Str ''Canada''\<rparr>, japan\<lparr>name := Str ''Japon''\<rparr>]
        \<and> dataset s2 = [canada, japan])"
proof -
  have a: "all example_state = [0, 1]" by (simp add: example_state_def)
  have p: "map (projected ''English'') [canada, japan]
             = [canada\<lparr>name := Str ''Canada''\<rparr>, japan\<lparr>name := Str ''Japan''\<rparr>]"
          "map (projected ''French'') [canada, japan]
             = [canada\<lparr>name := Str ''Canada''\<rparr>, japan\<lparr>name := Str ''Japon''\<rparr>]"
    by (simp_all add: projected_def truthy_str_def canada_def japan_def)
  from queries_never_mutate_dataset[OF wf_example_state,
          of None "Fin 0" None "[]" NaN "''English''" "''French''"]
  show ?thesis
    using wf_example_state unfolding dataset_example_state a p by blast
qed




section \<open>Properties of the rendering layer\<close>

lemma wf_example_dom: "wf_dom example_dom"
  by (simp add: wf_dom_def example_dom_def children_of_def)

lemma wf_example_dom_empty: "wf_dom example_dom_empty"
  by (simp add: wf_dom_def example_dom_empty_def children_of_def)

lemma remove_child_absent:
  "c \<notin> set (children_of_node nd) \<Longrightarrow> remove_child c nd = nd"
  by (cases nd) simp_all

lemma remove_child_fresh:
  assumes "\<forall>r. \<forall>c \<in> set (children_of d r). c < next_node d" and "next_node d \<le> c"
  shows "remove_child c (nodes d r) = nodes d r"
proof -
  from assms(1) have "\<forall>x \<in> set (children_of d r). x < next_node d" by blast
  with assms(2) have "c \<notin> set (children_of_node (nodes d r))"
    by (auto simp: children_of_def)
  then show ?thesis by (rule remove_child_absent)
qed

lemma appendChild_parentless:
  assumes "\<forall>r. child \<notin> set (children_of d r)" and "nodes d parent = Element t a cs"
  shows "appendChild parent child d =
           Some (child, d\<lparr>nodes := (nodes d)(parent := Element t a (cs @ [child]))\<rparr>)"
proof -
  have "remove_child child (nodes d r) = nodes d r" for r
    using assms(1) by (intro remove_child_absent) (simp add: children_of_def)
  moreover have "removeAll child cs = cs"
    using assms by (metis children_of_def children_of_node.simps(1) removeAll_id)
  ultimately show ?thesis
    using assms(2) by (simp add: appendChild_def)
qed

subsection \<open>What \<open>countryToRow\<close> builds\<close>

lemma countryToRow_run:
  assumes wf: "\<forall>r. \<forall>c \<in> set (children_of d r). c < next_node d"
  shows "\<exists>d'. countryToRow f g c d = Some (next_node d, d')
     \<and> next_node d' = next_node d + 15
     \<and> table_rows d' = table_rows d
     \<and> nodes d' = (nodes d)
               (next_node d := Element ''tr'' None
                  [next_node d + 1, next_node d + 3, next_node d + 5, next_node d + 7,
                   next_node d + 9, next_node d + 11, next_node d + 13],
                next_node d + 1 := Element ''td'' None [next_node d + 2],
                next_node d + 2 := Element ''img'' (Some (''flags/'' @ code c @ ''.png'')) [],
                next_node d + 3 := Element ''td'' None [next_node d + 4],
                next_node d + 4 := Text (code c),
                next_node d + 5 := Element ''td'' None [next_node d + 6],
                next_node d + 6 := Text (name_to_string g (name c)),
                next_node d + 7 := Element ''td'' None [next_node d + 8],
                next_node d + 8 := Text (continent c),
                next_node d + 9 := Element ''td'' None [next_node d + 10],
                next_node d + 10 := Text (f (areaInKm2 c)),
                next_node d + 11 := Element ''td'' None [next_node d + 12],
                next_node d + 12 := Text (f (population c)),
                next_node d + 13 := Element ''td'' None [next_node d + 14],
                next_node d + 14 := Text (capital c))"
proof -
  have fresh: "next_node d \<le> k \<Longrightarrow> remove_child k (nodes d r) = nodes d r" for k r
    using wf by (rule remove_child_fresh)
  show ?thesis
    unfolding countryToRow_def createElement_def createTextNode_def set_src_def
      appendChild_def countryCodeToFlagImg_def
    by (simp add: fresh fun_eq_iff)
qed


lemma countryToRow_spec:
  assumes wf: "\<forall>r. \<forall>c \<in> set (children_of d r). c < next_node d"
  shows "\<exists>d'. countryToRow f g c d = Some (next_node d, d')
     \<and> next_node d' = next_node d + 15
     \<and> table_rows d' = table_rows d
     \<and> (\<forall>x < next_node d. nodes d' x = nodes d x)
     \<and> (\<forall>r. \<forall>x \<in> set (children_of d' r). x < next_node d')
     \<and> (\<forall>r. next_node d \<notin> set (children_of d' r))
     \<and> (\<forall>x \<in> {next_node d ..< next_node d + 15}.
           set (children_of d' x) \<subseteq> {next_node d ..< next_node d + 15})
     \<and> tree_of 3 d' (next_node d) = expected_row f g c"
proof -
  from countryToRow_run[OF wf, of f g c]
  obtain d' where run: "countryToRow f g c d = Some (next_node d, d')"
    and nxt: "next_node d' = next_node d + 15"
    and tbl: "table_rows d' = table_rows d"
    and nds: "nodes d' = (nodes d)
               (next_node d := Element ''tr'' None
                  [next_node d + 1, next_node d + 3, next_node d + 5, next_node d + 7,
                   next_node d + 9, next_node d + 11, next_node d + 13],
                next_node d + 1 := Element ''td'' None [next_node d + 2],
                next_node d + 2 := Element ''img'' (Some (''flags/'' @ code c @ ''.png'')) [],
                next_node d + 3 := Element ''td'' None [next_node d + 4],
                next_node d + 4 := Text (code c),
                next_node d + 5 := Element ''td'' None [next_node d + 6],
                next_node d + 6 := Text (name_to_string g (name c)),
                next_node d + 7 := Element ''td'' None [next_node d + 8],
                next_node d + 8 := Text (continent c),
                next_node d + 9 := Element ''td'' None [next_node d + 10],
                next_node d + 10 := Text (f (areaInKm2 c)),
                next_node d + 11 := Element ''td'' None [next_node d + 12],
                next_node d + 12 := Text (f (population c)),
                next_node d + 13 := Element ''td'' None [next_node d + 14],
                next_node d + 14 := Text (capital c))"
    by blast
  have old_children: "x < next_node d" if "x \<in> set (children_of_node (nodes d r))" for x r
    using wf that by (auto simp: children_of_def)
  have frame: "\<forall>x < next_node d. nodes d' x = nodes d x"
    by (simp add: nds)
  have bound: "\<forall>r. \<forall>x \<in> set (children_of d' r). x < next_node d'"
    using old_children by (auto simp: children_of_def nds nxt dest!: old_children)
  have parentless: "\<forall>r. next_node d \<notin> set (children_of d' r)"
    using old_children by (auto simp: children_of_def nds dest!: old_children)
  have closed: "\<forall>x \<in> {next_node d ..< next_node d + 15}.
           set (children_of d' x) \<subseteq> {next_node d ..< next_node d + 15}"
  proof
    fix x assume "x \<in> {next_node d ..< next_node d + 15}"
    then obtain k where k: "x = next_node d + k" "k < 15"
      by (metis atLeastLessThan_iff le_Suc_ex nat_add_left_cancel_less)
    from k(2) have "k \<in> {0, 1, 2, 3, 4, 5, 6, 7, 8, 9, 10, 11, 12, 13, 14}" by simp arith
    then show "set (children_of d' x) \<subseteq> {next_node d ..< next_node d + 15}"
      using k(1) by (auto simp: children_of_def nds)
  qed
  have tree: "tree_of 3 d' (next_node d) = expected_row f g c"
    by (simp add: numeral_3_eq_3 nds expected_row_def)
  from run nxt tbl frame bound parentless closed tree show ?thesis by blast
qed


subsection \<open>Trees that later steps leave alone\<close>

lemma tree_of_frame:
  assumes "\<forall>x \<in> S. nodes d2 x = nodes d1 x" and "\<forall>x \<in> S. set (children_of d1 x) \<subseteq> S"
    and "r \<in> S"
  shows "tree_of k d2 r = tree_of k d1 r"
  using assms(3)
proof (induction k arbitrary: r)
  case 0
  with assms(1) show ?case by simp
next
  case (Suc k)
  from Suc.prems assms(1) have same: "nodes d2 r = nodes d1 r" by blast
  show ?case
  proof (cases "nodes d1 r")
    case (Element t a cs)
    from Suc.prems assms(2) have "set (children_of d1 r) \<subseteq> S" by blast
    with Element have "set cs \<subseteq> S" by (simp add: children_of_def)
    then have "map (tree_of k d2) cs = map (tree_of k d1) cs"
      using Suc.IH by (intro map_cong) auto
    with same Element show ?thesis by simp
  next
    case (Text x)
    with same show ?thesis by simp
  qed
qed

subsection \<open>The loop of \<open>countriesToTable\<close>\<close>

lemma countriesToTable_loop_spec:
  assumes "wf_dom d" and "table_rows d = Some t"
  shows "\<exists>d' new. countriesToTable_loop f g cs d = Some d'
     \<and> wf_dom d' \<and> table_rows d' = Some t \<and> next_node d \<le> next_node d'
     \<and> (\<forall>x < next_node d. x \<noteq> t \<longrightarrow> nodes d' x = nodes d x)
     \<and> children_of d' t = children_of d t @ new
     \<and> (\<forall>tg a old. nodes d t = Element tg a old \<longrightarrow> nodes d' t = Element tg a (old @ new))
     \<and> length new = length cs
     \<and> (\<forall>r \<in> set new. next_node d \<le> r)
     \<and> map (tree_of 3 d') new = map (expected_row f g) cs"
  using assms
proof (induction cs arbitrary: d)
  case Nil
  then show ?case by simp
next
  case (Cons c cs)
  let ?n = "next_node d"
  from Cons.prems have wf: "\<forall>r. \<forall>x \<in> set (children_of d r). x < next_node d"
    and t: "t < ?n" and el: "is_element (nodes d t)"
    by (auto simp: wf_dom_def)
  from countryToRow_spec[OF wf, of f g c]
  obtain d1 where row: "countryToRow f g c d = Some (?n, d1)"
    and nxt1: "next_node d1 = ?n + 15"
    and tbl1: "table_rows d1 = table_rows d"
    and frame1: "\<forall>x < ?n. nodes d1 x = nodes d x"
    and bound1: "\<forall>r. \<forall>x \<in> set (children_of d1 r). x < next_node d1"
    and parentless1: "\<forall>r. ?n \<notin> set (children_of d1 r)"
    and closed1: "\<forall>x \<in> {?n ..< ?n + 15}. set (children_of d1 x) \<subseteq> {?n ..< ?n + 15}"
    and tree1: "tree_of 3 d1 ?n = expected_row f g c"
    by blast
  from el obtain tg a rows where tn: "nodes d t = Element tg a rows"
    by (cases "nodes d t") auto
  with frame1 t have tn1: "nodes d1 t = Element tg a rows" by simp
  let ?d2 = "d1\<lparr>nodes := (nodes d1)(t := Element tg a (rows @ [?n]))\<rparr>"
  from appendChild_parentless[OF parentless1 tn1]
  have app: "appendChild t ?n d1 = Some (?n, ?d2)" .
  from bound1 have "\<forall>x \<in> set (children_of d1 t). x < next_node d1" by blast
  with tn1 have rows_bound: "\<forall>x \<in> set rows. x < next_node d1"
    by (simp add: children_of_def)
  have "\<forall>x \<in> set (children_of ?d2 r). x < next_node ?d2" for r
  proof (cases "r = t")
    case True
    with rows_bound nxt1 show ?thesis by (simp add: children_of_def)
  next
    case False
    from bound1 have "\<forall>x \<in> set (children_of d1 r). x < next_node d1" by blast
    with False show ?thesis by (simp add: children_of_def)
  qed
  then have wf2: "wf_dom ?d2"
    using nxt1 t Cons.prems(2) tbl1 by (simp add: wf_dom_def)
  have tbl2: "table_rows ?d2 = Some t"
    using tbl1 Cons.prems(2) by simp
  from Cons.IH[OF wf2 tbl2]
  obtain d' new where loop: "countriesToTable_loop f g cs ?d2 = Some d'"
    and wf': "wf_dom d'" and tbl': "table_rows d' = Some t"
    and nxt': "next_node ?d2 \<le> next_node d'"
    and frame': "\<forall>x < next_node ?d2. x \<noteq> t \<longrightarrow> nodes d' x = nodes ?d2 x"
    and rows': "children_of d' t = children_of ?d2 t @ new"
    and body': "\<forall>tg a old. nodes ?d2 t = Element tg a old
                  \<longrightarrow> nodes d' t = Element tg a (old @ new)"
    and len': "length new = length cs"
    and fresh': "\<forall>r \<in> set new. next_node ?d2 \<le> r"
    and trees': "map (tree_of 3 d') new = map (expected_row f g) cs"
    by blast
  have fresh: "\<forall>r \<in> set (?n # new). ?n \<le> r"
    using fresh' nxt1 by auto
  have run: "countriesToTable_loop f g (c # cs) d = Some d'"
    using row tbl1 Cons.prems(2) app loop by simp
  have same: "\<forall>x \<in> {?n ..< ?n + 15}. nodes d' x = nodes d1 x"
    using frame' nxt1 t by auto
  have "tree_of 3 d' ?n = tree_of 3 d1 ?n"
    by (rule tree_of_frame[OF same closed1]) simp
  with tree1 have row_tree: "tree_of 3 d' ?n = expected_row f g c" by simp
  have old: "\<forall>x < ?n. x \<noteq> t \<longrightarrow> nodes d' x = nodes d x"
    using frame' frame1 nxt1 by auto
  have rows: "children_of d' t = children_of d t @ (?n # new)"
    using rows' tn by (simp add: children_of_def)
  from body' have "nodes d' t = Element tg a ((rows @ [?n]) @ new)" by simp
  with tn have body: "\<forall>tg a old. nodes d t = Element tg a old
                  \<longrightarrow> nodes d' t = Element tg a (old @ (?n # new))"
    by simp
  show ?case
    using run wf' tbl' nxt' nxt1 old rows len' trees' row_tree fresh body
    by (intro exI[of _ d'] exI[of _ "?n # new"]) simp
qed


lemma without_children_facts:
  "children_of_node (without_children nd) = []"
  "without_children (without_children nd) = without_children nd"
  "is_element (without_children nd) = is_element nd"
  "children_of_node nd = [] \<Longrightarrow> without_children nd = nd"
  by (cases nd; simp)+

lemma clearTable_run:
  assumes "table_rows d = Some t"
  shows "\<exists>d0. clearTable d = Some d0 \<and> table_rows d0 = Some t \<and> next_node d0 = next_node d
           \<and> children_of d0 t = []
           \<and> (\<forall>r. r \<noteq> t \<longrightarrow> nodes d0 r = nodes d r)
           \<and> (\<forall>tg a rows. nodes d t = Element tg a rows \<longrightarrow> nodes d0 t = Element tg a [])"
  using assms by (auto simp: clearTable_def children_of_def without_children_facts)

lemma clearTable_spec:
  assumes "wf_dom d" and "table_rows d = Some t"
  shows "\<exists>d0. clearTable d = Some d0 \<and> wf_dom d0 \<and> table_rows d0 = Some t
           \<and> next_node d0 = next_node d \<and> children_of d0 t = []
           \<and> (\<forall>r. r \<noteq> t \<longrightarrow> nodes d0 r = nodes d r)
           \<and> (\<forall>tg a rows. nodes d t = Element tg a rows \<longrightarrow> nodes d0 t = Element tg a [])"
proof -
  from clearTable_run[OF assms(2)]
  obtain d0 where clr: "clearTable d = Some d0" and t0: "table_rows d0 = Some t"
    and nxt: "next_node d0 = next_node d" and empty: "children_of d0 t = []"
    and frame: "\<forall>r. r \<noteq> t \<longrightarrow> nodes d0 r = nodes d r"
    and body: "\<forall>tg a rows. nodes d t = Element tg a rows \<longrightarrow> nodes d0 t = Element tg a []"
    by blast
  from assms have t: "t < next_node d" and el: "is_element (nodes d t)"
    by (auto simp: wf_dom_def)
  from el obtain tg a rows where tn: "nodes d t = Element tg a rows"
    by (cases "nodes d t") auto
  with body have tn0: "nodes d0 t = Element tg a []" by blast
  have "\<forall>x \<in> set (children_of d0 r). x < next_node d0" for r
  proof (cases "r = t")
    case True
    with empty show ?thesis by simp
  next
    case False
    from assms(1) have "\<forall>x \<in> set (children_of d r). x < next_node d"
      by (simp add: wf_dom_def)
    with False frame nxt show ?thesis by (simp add: children_of_def)
  qed
  then have "wf_dom d0"
    using t tn0 t0 nxt by (simp add: wf_dom_def)
  with clr t0 nxt empty frame body show ?thesis by blast
qed

lemma countriesToTable_spec:
  assumes "wf_dom d" and "table_rows d = Some t"
  shows "\<exists>d' rows. countriesToTable f g cs d = Some d' \<and> wf_dom d'
           \<and> table_rows d' = Some t
           \<and> next_node d \<le> next_node d'
           \<and> (\<forall>x < next_node d. x \<noteq> t \<longrightarrow> nodes d' x = nodes d x)
           \<and> (\<forall>tg a old. nodes d t = Element tg a old \<longrightarrow> nodes d' t = Element tg a rows)
           \<and> children_of d' t = rows
           \<and> length rows = length cs
           \<and> (\<forall>r \<in> set rows. next_node d \<le> r)
           \<and> map (tree_of 3 d') rows = map (expected_row f g) cs"
proof -
  from clearTable_spec[OF assms]
  obtain d0 where clr: "clearTable d = Some d0" and wf0: "wf_dom d0"
    and t0: "table_rows d0 = Some t" and nxt0: "next_node d0 = next_node d"
    and empty: "children_of d0 t = []"
    and frame0: "\<forall>r. r \<noteq> t \<longrightarrow> nodes d0 r = nodes d r"
    and body0: "\<forall>tg a rows. nodes d t = Element tg a rows \<longrightarrow> nodes d0 t = Element tg a []"
    by blast
  from countriesToTable_loop_spec[OF wf0 t0, of f g cs]
  obtain d' new where loop: "countriesToTable_loop f g cs d0 = Some d'"
    and wf': "wf_dom d'" and t': "table_rows d' = Some t"
    and nxt': "next_node d0 \<le> next_node d'"
    and frame': "\<forall>x < next_node d0. x \<noteq> t \<longrightarrow> nodes d' x = nodes d0 x"
    and rows: "children_of d' t = children_of d0 t @ new"
    and body1: "\<forall>tg a old. nodes d0 t = Element tg a old
                  \<longrightarrow> nodes d' t = Element tg a (old @ new)"
    and len: "length new = length cs"
    and fresh: "\<forall>r \<in> set new. next_node d0 \<le> r"
    and trees: "map (tree_of 3 d') new = map (expected_row f g) cs"
    by blast
  have kids: "children_of d' t = new" using rows empty by simp
  have body: "nodes d' t = Element tg a new" if "nodes d t = Element tg a old" for tg a old
  proof -
    from that body0 have "nodes d0 t = Element tg a []" by blast
    with body1 show ?thesis by simp
  qed
  show ?thesis
    using clr loop wf' t' nxt' nxt0 frame' frame0 kids len fresh trees body
    by (intro exI[of _ d'] exI[of _ new]) (simp add: countriesToTable_def)
qed

section \<open>The claims about the rendering layer\<close>

text \<open>
  C7. On a well-formed document with table body \<open>t\<close>, \<open>countriesToTable(countries)\<close>
  succeeds and leaves the same table body element with exactly one row per entry of
  \<open>countries\<close>, in the order of \<open>countries\<close>. The row of an entry is a \<open>tr\<close> whose seven
  cells hold the flag image, the code, the name, the continent, the area, the population
  and the capital of that entry. Every row is a node created by this call, so none of the
  rows shown before remains; the rest of the page is as it was. Rendering the empty
  sequence afterwards leaves the table body with no row.
\<close>

theorem countriesToTable_rows_match_input:
  assumes "wf_dom d" and "table_rows d = Some t"
  shows "\<exists>d' rows.
           countriesToTable numberToString builtinToString countries d = Some d'
         \<and> table_rows d' = Some t
         \<and> table_body d' = Some rows
         \<and> length rows = length countries
         \<and> map (tree_of 3 d') rows
             = map (expected_row numberToString builtinToString) countries
         \<and> (\<forall>r \<in> set rows. next_node d \<le> r)
         \<and> (\<forall>tg a old. nodes d t = Element tg a old \<longrightarrow> nodes d' t = Element tg a rows)
         \<and> (\<forall>x < next_node d. x \<noteq> t \<longrightarrow> nodes d' x = nodes d x)
         \<and> (\<exists>d''. countriesToTable numberToString builtinToString [] d' = Some d''
                 \<and> table_rows d'' = Some t \<and> table_body d'' = Some [])"
proof -
  from countriesToTable_spec[OF assms, of numberToString builtinToString countries]
  obtain d' rows where
        run: "countriesToTable numberToString builtinToString countries d = Some d'"
    and wf': "wf_dom d'" and t': "table_rows d' = Some t"
    and frame: "\<forall>x < next_node d. x \<noteq> t \<longrightarrow> nodes d' x = nodes d x"
    and body: "\<forall>tg a old. nodes d t = Element tg a old \<longrightarrow> nodes d' t = Element tg a rows"
    and kids: "children_of d' t = rows"
    and len: "length rows = length countries"
    and fresh: "\<forall>r \<in> set rows. next_node d \<le> r"
    and trees: "map (tree_of 3 d') rows
                  = map (expected_row numberToString builtinToString) countries"
    by blast
  from countriesToTable_spec[OF wf' t', of numberToString builtinToString "[]"]
  obtain d'' where again: "countriesToTable numberToString builtinToString [] d' = Some d''"
    and t'': "table_rows d'' = Some t" and kids'': "children_of d'' t = []"
    by auto
  have "table_body d' = Some rows" using t' kids by (simp add: table_body_def)
  moreover have "table_body d'' = Some []" using t'' kids'' by (simp add: table_body_def)
  ultimately show ?thesis
    using run t' len trees fresh body frame again t''
    by (intro exI[of _ d'] exI[of _ rows] conjI exI[of _ d'']) simp_all
qed

theorem countriesToTable_rows_match_input_witness:
  "wf_dom example_dom \<and> table_rows example_dom = Some 0
   \<and> table_body example_dom = Some [1, 2]
   \<and> (\<exists>d' rows.
         countriesToTable example_number_text example_builtin_text
           [canada\<lparr>name := Str ''Canada''\<rparr>, japan\<lparr>name := Str ''Japan''\<rparr>] example_dom = Some d'
       \<and> table_rows d' = Some 0
       \<and> table_body d' = Some rows
       \<and> length rows = 2
       \<and> 1 \<notin> set rows \<and> 2 \<notin> set rows
       \<and> nodes d' 0 = Element ''tbody'' None rows
       \<and> nodes d' 1 = Element ''tr'' None [3]
       \<and> map (tree_of 3 d') rows =
             [TElement ''tr'' None
                [TElement ''td'' None [TElement ''img'' (Some ''flags/CA.png'') []],
                 TElement ''td'' None [TText ''CA''],
                 TElement ''td'' None [TText ''Canada''],
                 TElement ''td'' None [TText ''Americas''],
                 TElement ''td'' None [TText ''9984670''],
                 TElement ''td'' None [TText ''36624199''],
                 TElement ''td'' None [TText ''Ottawa'']],
              TElement ''tr'' None
                [TElement ''td'' None [TElement ''img'' (Some ''flags/JP.png'') []],
                 TElement ''td'' None [TText ''JP''],
                 TElement ''td'' None [TText ''Japan''],
                 TElement ''td'' None [TText ''Asia''],
                 TElement ''td'' None [TText ''377930''],
                 TElement ''td'' None [TText ''126000000''],
                 TElement ''td'' None [TText ''Tokyo'']]])"
proof -
  let ?cs = "[canada\<lparr>name := Str ''Canada''\<rparr>, japan\<lparr>name := Str ''Japan''\<rparr>]"
  have t: "table_rows example_dom = Some 0" by (simp add: example_dom_def)
  have b: "table_body example_dom = Some [1, 2]"
    by (simp add: table_body_def example_dom_def children_of_def)
  from countriesToTable_rows_match_input[OF wf_example_dom t,
          of example_number_text example_builtin_text ?cs]
  obtain d' rows where
        run: "countriesToTable example_number_text example_builtin_text ?cs example_dom = Some d'"
    and t': "table_rows d' = Some 0" and b': "table_body d' = Some rows"
    and len: "length rows = length ?cs"
    and trees: "map (tree_of 3 d') rows
                  = map (expected_row example_number_text example_builtin_text) ?cs"
    and fresh: "\<forall>r \<in> set rows. next_node example_dom \<le> r"
    and body: "\<forall>tg a old. nodes example_dom 0 = Element tg a old
                 \<longrightarrow> nodes d' 0 = Element tg a rows"
    and frame: "\<forall>x < next_node example_dom. x \<noteq> 0 \<longrightarrow> nodes d' x = nodes example_dom x"
    by (elim exE conjE)
  have exp: "map (expected_row example_number_text example_builtin_text) ?cs =
             [TElement ''tr'' None
                [TElement ''td'' None [TElement ''img'' (Some ''flags/CA.png'') []],
                 TElement ''td'' None [TText ''CA''],
                 TElement ''td'' None [TText ''Canada''],
                 TElement ''td'' None [TText ''Americas''],
                 TElement ''td'' None [TText ''9984670''],
                 TElement ''td'' None [TText ''36624199''],
                 TElement ''td'' None [TText ''Ottawa'']],
              TElement ''tr'' None
                [TElement ''td'' None [TElement ''img'' (Some ''flags/JP.png'') []],
                 TElement ''td'' None [TText ''JP''],
                 TElement ''td'' None [TText ''Japan''],
                 TElement ''td'' None [TText ''Asia''],
                 TElement ''td'' None [TText ''377930''],
                 TElement ''td'' None [TText ''126000000''],
                 TElement ''td'' None [TText ''Tokyo'']]]"
    by (simp add: expected_row_def canada_def japan_def example_number_text_def)
  from fresh have new: "1 \<notin> set rows" "2 \<notin> set rows"
    by (auto simp: example_dom_def)
  from body have tb: "nodes d' 0 = Element ''tbody'' None rows"
    by (simp add: example_dom_def)
  from frame have old: "nodes d' 1 = Element ''tr'' None [3]"
    by (simp add: example_dom_def)
  from trees exp have "map (tree_of 3 d') rows = 
             [TElement ''tr'' None
                [TElement ''td'' None [TElement ''img'' (Some ''flags/CA.png'') []],
                 TElement ''td'' None [TText ''CA''],
                 TElement ''td'' None [TText ''Canada''],
                 TElement ''td'' None [TText ''Americas''],
                 TElement ''td'' None [TText ''9984670''],
                 TElement ''td'' None [TText ''36624199''],
                 TElement ''td'' None [TText ''Ottawa'']],
              TElement ''tr'' None
                [TElement ''td'' None [TElement ''img'' (Some ''flags/JP.png'') []],
                 TElement ''td'' None [TText ''JP''],
                 TElement ''td'' None [TText ''Japan''],
                 TElement ''td'' None [TText ''Asia''],
                 TElement ''td'' None [TText ''377930''],
                 TElement ''td'' None [TText ''126000000''],
                 TElement ''td'' None [TText ''Tokyo'']]]"
    by (rule trans)
  with run t' b' len new tb old wf_example_dom t b show ?thesis
    by (intro conjI exI[of _ d'] exI[of _ rows]) simp_all
qed

text \<open>
  C9. \<open>clearTable\<close> is idempotent: running it twice has the effect of running it once,
  also when it fails because the page has no table body. When the page has a table body
  it succeeds, the table body is the same element and has no row left, and every other
  node of the page is as it was. On a table body that is already empty it changes nothing.
\<close>

theorem clearTable_idempotent:
  "Option.bind (clearTable d) clearTable = clearTable d
   \<and> (table_rows d = None \<longrightarrow> clearTable d = None)
   \<and> (\<forall>t. table_rows d = Some t \<longrightarrow>
         (\<exists>d'. clearTable d = Some d'
             \<and> table_rows d' = Some t \<and> next_node d' = next_node d
             \<and> table_body d' = Some []
             \<and> (\<forall>r. r \<noteq> t \<longrightarrow> nodes d' r = nodes d r)
             \<and> (\<forall>tg a rows. nodes d t = Element tg a rows \<longrightarrow> nodes d' t = Element tg a [])
             \<and> clearTable d' = Some d'))
   \<and> (table_body d = Some [] \<longrightarrow> clearTable d = Some d)"
proof (intro conjI allI impI)
  show "Option.bind (clearTable d) clearTable = clearTable d"
    by (cases "table_rows d") (simp_all add: clearTable_def without_children_facts)
next
  assume "table_rows d = None"
  then show "clearTable d = None" by (simp add: clearTable_def)
next
  fix t assume t: "table_rows d = Some t"
  from clearTable_run[OF t]
  obtain d' where clr: "clearTable d = Some d'" and t': "table_rows d' = Some t"
    and nxt: "next_node d' = next_node d" and empty: "children_of d' t = []"
    and frame: "\<forall>r. r \<noteq> t \<longrightarrow> nodes d' r = nodes d r"
    and body: "\<forall>tg a rows. nodes d t = Element tg a rows \<longrightarrow> nodes d' t = Element tg a []"
    by blast
  have again: "clearTable d' = Some d'"
    using t' empty by (simp add: clearTable_def children_of_def without_children_facts)
  have "table_body d' = Some []" using t' empty by (simp add: table_body_def)
  with clr t' nxt frame body again
  show "\<exists>d'. clearTable d = Some d'
             \<and> table_rows d' = Some t \<and> next_node d' = next_node d
             \<and> table_body d' = Some []
             \<and> (\<forall>r. r \<noteq> t \<longrightarrow> nodes d' r = nodes d r)
             \<and> (\<forall>tg a rows. nodes d t = Element tg a rows \<longrightarrow> nodes d' t = Element tg a [])
             \<and> clearTable d' = Some d'"
    by blast
next
  assume "table_body d = Some []"
  then show "clearTable d = Some d"
    by (auto simp: table_body_def clearTable_def children_of_def without_children_facts)
qed

theorem clearTable_idempotent_witness:
  "table_rows example_dom = Some 0 \<and> table_body example_dom = Some [1, 2]
   \<and> (\<exists>d'. clearTable example_dom = Some d'
         \<and> table_rows d' = Some 0 \<and> table_body d' = Some []
         \<and> nodes d' 0 = Element ''tbody'' None []
         \<and> nodes d' 1 = Element ''tr'' None [3]
         \<and> clearTable d' = Some d')
   \<and> table_body example_dom_empty = Some []
   \<and> clearTable example_dom_empty = Some example_dom_empty"
proof -
  have t: "table_rows example_dom = Some 0" by (simp add: example_dom_def)
  have b: "table_body example_dom = Some [1, 2]"
    by (simp add: table_body_def example_dom_def children_of_def)
  have e: "table_body example_dom_empty = Some []"
    by (simp add: table_body_def example_dom_empty_def children_of_def)
  from clearTable_idempotent[of example_dom] t
  obtain d' where clr: "clearTable example_dom = Some d'"
    and t': "table_rows d' = Some 0" and b': "table_body d' = Some []"
    and frame: "\<forall>r. r \<noteq> 0 \<longrightarrow> nodes d' r = nodes example_dom r"
    and body: "\<forall>tg a rows. nodes example_dom 0 = Element tg a rows
                 \<longrightarrow> nodes d' 0 = Element tg a []"
    and again: "clearTable d' = Some d'"
    by blast
  from body have n0: "nodes d' 0 = Element ''tbody'' None []" by (simp add: example_dom_def)
  from frame have n1: "nodes d' 1 = Element ''tr'' None [3]" by (simp add: example_dom_def)
  from clearTable_idempotent[of example_dom_empty] e
  have noop: "clearTable example_dom_empty = Some example_dom_empty" by blast
  from t b e clr t' b' n0 n1 again noop show ?thesis
    by (intro conjI exI[of _ d']) simp_all
qed

text \<open>
  C10. The image that \<open>countryCodeToFlagImg(countryCode)\<close> returns is a new \<open>img\<close>
  element whose \<open>src\<close> is \<open>flags/\<close>, the code as it was given, and \<open>.png\<close>: for the code
  \<open>CA\<close> it is \<open>flags/CA.png\<close>, in upper case.
\<close>

theorem countryCodeToFlagImg_src:
  "fst (countryCodeToFlagImg countryCode d) = next_node d
   \<and> nodes (snd (countryCodeToFlagImg countryCode d)) (fst (countryCodeToFlagImg countryCode d))
       = Element ''img'' (Some (''flags/'' @ countryCode @ ''.png'')) []
   \<and> nodes (snd (countryCodeToFlagImg ''CA'' d)) (fst (countryCodeToFlagImg ''CA'' d))
       = Element ''img'' (Some ''flags/CA.png'') []"
  by (simp add: countryCodeToFlagImg_def createElement_def set_src_def)

end
